theory Spec2Isabelle
  imports Complex_Main "HOL-Library.Sublist"
begin

section \<open>INTERLINK AI Matcher: the match operation of main.py\<close>

text \<open>
  The program is one request handler, \<^verbatim>\<open>match_internships(student_id)\<close>. It reads a
  student from the datastore, collects internships from the datastore (Supabase) and
  from two HTTP providers (JSearch, Adzuna), removes duplicates, scores every listing
  against the student's text and returns the ten best.

  Everything outside the handler is an input of the model, collected in the record
  \<open>env\<close>: the two tables, the three credentials read from the process environment,
  the answers of the two HTTP endpoints, and the three library routines the handler
  calls on its data (the stop-word list and the numeric kernel of scikit-learn's
  vectorizer, and the sorting routine behind \<^verbatim>\<open>sort_values\<close>). The handler's
  effects are the calls it makes; the model returns them as a list next to the
  outcome.

  Python values are typed as the handler uses them. Text is a \<open>string\<close> of ASCII
  characters. A field read with \<^verbatim>\<open>x or ""\<close> is a \<open>string option\<close> (\<open>None\<close> is
  Python's \<^verbatim>\<open>None\<close>); a field of a provider's JSON object read with
  \<^verbatim>\<open>job.get(key, default)\<close> has three cases (\<open>jfield\<close>); skill lists are lists of
  strings.
\<close>

subsection \<open>Python strings\<close>

text \<open>\<^verbatim>\<open>sep.join(xs)\<close>\<close>

fun join :: "string \<Rightarrow> string list \<Rightarrow> string" where
  "join sep [] = []"
| "join sep [x] = x"
| "join sep (x # y # ys) = x @ sep @ join sep (y # ys)"

text \<open>\<^verbatim>\<open>s.lower()\<close> on ASCII text\<close>

definition lower_char :: "char \<Rightarrow> char" where
  "lower_char c =
     (let n = (of_char c :: nat) in if 65 \<le> n \<and> n \<le> 90 then char_of (n + 32) else c)"

definition lower :: "string \<Rightarrow> string" where
  "lower s = map lower_char s"

text \<open>\<^verbatim>\<open>x or ""\<close> for a value that is a string or \<^verbatim>\<open>None\<close>\<close>

fun or_empty :: "string option \<Rightarrow> string" where
  "or_empty None = []"
| "or_empty (Some s) = s"

text \<open>The truth value of an environment variable: unset and empty are both false.\<close>

fun truthy :: "string option \<Rightarrow> bool" where
  "truthy None = False"
| "truthy (Some s) = (s \<noteq> [])"

text \<open>\<^verbatim>\<open>str(n)\<close> for a non-negative integer, as the f-strings of the handler print it\<close>

definition digit_char :: "nat \<Rightarrow> char" where
  "digit_char d = char_of (48 + d)"

function str_nat :: "nat \<Rightarrow> string" where
  "str_nat n = (if n < 10 then [digit_char n] else str_nat (n div 10) @ [digit_char (n mod 10)])"
  by pat_completeness auto
termination
  by (relation "measure (\<lambda>n. n)") auto

declare str_nat.simps [simp del]

subsection \<open>Records of the datastore and of the providers\<close>

record student =
  skills :: "string list"
  bio :: "string option"

record internship =
  i_id :: string
  i_title :: "string option"
  i_description :: "string option"
  i_required_skills :: "string list"

text \<open>
  A key of a provider's JSON object: not there, there with \<^verbatim>\<open>null\<close>, or there with
  a string. \<^verbatim>\<open>job.get(key, default)\<close> gives the default only in the first case.
\<close>

datatype jfield = Absent | Null | Str string

fun dict_get :: "jfield \<Rightarrow> string \<Rightarrow> string option" where
  "dict_get Absent d = Some d"
| "dict_get Null d = None"
| "dict_get (Str s) d = Some s"

record jsearch_job =
  job_id :: jfield
  job_title :: jfield
  job_description :: jfield
  job_apply_link :: jfield

record adzuna_job =
  adz_id :: jfield
  adz_title :: jfield
  adz_description :: jfield
  adz_redirect_url :: jfield

text \<open>
  One row of the handler's tables: the dictionaries appended to \<^verbatim>\<open>jsearch_list\<close> and
  \<^verbatim>\<open>adzuna_list\<close> (\<open>listing\<close>), and the rows of the data frames, which carry the
  \<^verbatim>\<open>text\<close> column as well (\<open>candidate\<close>).
\<close>

record listing =
  l_id :: "string option"
  title :: "string option"
  description :: "string option"
  url :: "string option"
  required_skills :: "string list"
  source :: string

record candidate = listing +
  text_col :: string

record ranked_match =
  m_id :: "string option"
  m_title :: "string option"
  m_description :: "string option"
  m_similarity :: real
  m_source :: string
  m_url :: "string option"

subsection \<open>The environment of one request\<close>

text \<open>A datastore query raises (with a message) or returns its \<^verbatim>\<open>data\<close>.\<close>

datatype 'a db_result = DbRaised string | DbData 'a

text \<open>
  An HTTP request raises (timeout, connection error) or returns a status code and a
  JSON body, of which the handler reads one key holding a list of jobs (\<open>None\<close>: the
  key is not there).
\<close>

datatype 'a http_result = RequestRaised | Response nat "'a list option"

record adzuna_params =
  app_id :: "string option"
  app_key :: "string option"
  results_per_page :: nat
  what :: string
  where_ :: string

record env =
  students_table :: "string \<Rightarrow> student list option db_result"
  internships_table :: "internship list option db_result"
  RAPIDAPI_KEY :: "string option"
  ADZUNA_APP_ID :: "string option"
  ADZUNA_APP_KEY :: "string option"
  jsearch_get :: "string \<Rightarrow> jsearch_job http_result"
  adzuna_get :: "adzuna_params \<Rightarrow> adzuna_job http_result"
  ENGLISH_STOP_WORDS :: "string list"
  cosine_tfidf :: "string list \<Rightarrow> nat \<Rightarrow> real"
  argsort :: "real list \<Rightarrow> nat list"

text \<open>The calls the handler makes, in order.\<close>

datatype call =
  SelectStudent string
  | SelectInternships
  | GetJSearch string
  | GetAdzuna adzuna_params

subsection \<open>Step 3: the student's text\<close>

definition student_text :: "student \<Rightarrow> string" where
  "student_text st = lower (join '' '' (skills st) @ '' '' @ or_empty (bio st))"

subsection \<open>Step 4: internships of the datastore\<close>

text \<open>
  \<^verbatim>\<open>internal_res.data or []\<close>, and the empty list when the query raises.
\<close>

fun internal_data :: "internship list option db_result \<Rightarrow> internship list" where
  "internal_data (DbRaised msg) = []"
| "internal_data (DbData None) = []"
| "internal_data (DbData (Some rows)) = rows"

definition internal_row :: "internship \<Rightarrow> candidate" where
  "internal_row x =
     \<lparr> l_id = Some (i_id x), title = i_title x, description = i_description x,
       url = Some [], required_skills = i_required_skills x, source = ''supabase'',
       text_col = lower (or_empty (i_title x) @ '' '' @ or_empty (i_description x) @ '' '' @
                         join '' '' (i_required_skills x)) \<rparr>"

definition internal_df :: "env \<Rightarrow> candidate list" where
  "internal_df e = map internal_row (internal_data (internships_table e))"

subsection \<open>Step 5: JSearch\<close>

definition skills_query :: "student \<Rightarrow> string" where
  "skills_query st = (let q = join ''+'' (skills st) in if q = [] then ''internship'' else q)"

definition jsearch_url :: "student \<Rightarrow> string" where
  "jsearch_url st =
     ''https://jsearch.p.rapidapi.com/search?query='' @ skills_query st @
     ''+internship&page=1&num_pages=1''"

text \<open>The loop over the jobs; \<open>acc\<close> is \<^verbatim>\<open>jsearch_list\<close> so far.\<close>

fun jsearch_loop :: "jsearch_job list \<Rightarrow> listing list \<Rightarrow> listing list" where
  "jsearch_loop [] acc = acc"
| "jsearch_loop (job # jobs) acc =
     jsearch_loop jobs
       (acc @ [\<lparr> l_id = dict_get (job_id job) (''j_'' @ str_nat (length acc)),
                 title = dict_get (job_title job) ''Untitled'',
                 description = dict_get (job_description job) [],
                 url = dict_get (job_apply_link job) [],
                 required_skills = [],
                 source = ''external_jsearch'' \<rparr>])"

text \<open>\<^verbatim>\<open>response.json().get("data", [])\<close>\<close>

fun body_list :: "'a list option \<Rightarrow> 'a list" where
  "body_list None = []"
| "body_list (Some xs) = xs"

text \<open>The request and what it adds to the list, with the call it makes.\<close>

definition jsearch_step :: "env \<Rightarrow> student \<Rightarrow> listing list \<times> call list" where
  "jsearch_step e st =
     (if truthy (RAPIDAPI_KEY e) then
        ((case jsearch_get e (jsearch_url st) of
            RequestRaised \<Rightarrow> []
          | Response status body \<Rightarrow>
              if status = 200 then jsearch_loop (take 10 (body_list body)) [] else []),
         [GetJSearch (jsearch_url st)])
      else ([], []))"

definition jsearch_list :: "env \<Rightarrow> student \<Rightarrow> listing list" where
  "jsearch_list e st = fst (jsearch_step e st)"

subsection \<open>Step 6: Adzuna\<close>

definition adzuna_request :: "env \<Rightarrow> adzuna_params" where
  "adzuna_request e =
     \<lparr> app_id = ADZUNA_APP_ID e, app_key = ADZUNA_APP_KEY e, results_per_page = 10,
       what = ''internship'', where_ = ''India'' \<rparr>"

text \<open>The id is printed into an f-string: \<^verbatim>\<open>f"adz_{job.get('id', len(adzuna_list))}"\<close>.\<close>

fun adzuna_id :: "jfield \<Rightarrow> nat \<Rightarrow> string" where
  "adzuna_id Absent n = ''adz_'' @ str_nat n"
| "adzuna_id Null n = ''adz_None''"
| "adzuna_id (Str s) n = ''adz_'' @ s"

fun adzuna_loop :: "adzuna_job list \<Rightarrow> listing list \<Rightarrow> listing list" where
  "adzuna_loop [] acc = acc"
| "adzuna_loop (job # jobs) acc =
     adzuna_loop jobs
       (acc @ [\<lparr> l_id = Some (adzuna_id (adz_id job) (length acc)),
                 title = dict_get (adz_title job) ''Untitled'',
                 description = dict_get (adz_description job) [],
                 url = dict_get (adz_redirect_url job) [],
                 required_skills = [],
                 source = ''external_adzuna'' \<rparr>])"

definition adzuna_step :: "env \<Rightarrow> listing list \<times> call list" where
  "adzuna_step e =
     (if truthy (ADZUNA_APP_ID e) \<and> truthy (ADZUNA_APP_KEY e) then
        ((case adzuna_get e (adzuna_request e) of
            RequestRaised \<Rightarrow> []
          | Response status body \<Rightarrow>
              if status = 200 then adzuna_loop (body_list body) [] else []),
         [GetAdzuna (adzuna_request e)])
      else ([], []))"

definition adzuna_list :: "env \<Rightarrow> listing list" where
  "adzuna_list e = fst (adzuna_step e)"

subsection \<open>Step 7: one table, without duplicates\<close>

definition external_list :: "env \<Rightarrow> student \<Rightarrow> listing list" where
  "external_list e st = jsearch_list e st @ adzuna_list e"

definition external_row :: "listing \<Rightarrow> candidate" where
  "external_row x =
     \<lparr> l_id = l_id x, title = title x, description = description x, url = url x,
       required_skills = required_skills x, source = source x,
       text_col = lower (or_empty (title x) @ '' '' @ or_empty (description x)) \<rparr>"

definition external_df :: "env \<Rightarrow> student \<Rightarrow> candidate list" where
  "external_df e st = map external_row (external_list e st)"

definition concat_frames :: "env \<Rightarrow> student \<Rightarrow> candidate list" where
  "concat_frames e st = internal_df e @ external_df e st"

text \<open>
  \<^verbatim>\<open>drop_duplicates(subset=["title", "description"])\<close> keeps a row unless a row above
  it has the same two values (\<^verbatim>\<open>keep="first"\<close>, the default). \<open>seen\<close> holds the keys
  of the rows above.
\<close>

definition subset_key :: "candidate \<Rightarrow> string option \<times> string option" where
  "subset_key c = (title c, description c)"

fun drop_duplicates_from :: "(string option \<times> string option) list \<Rightarrow> candidate list \<Rightarrow> candidate list" where
  "drop_duplicates_from seen [] = []"
| "drop_duplicates_from seen (c # cs) =
     (if subset_key c \<in> set seen then drop_duplicates_from seen cs
      else c # drop_duplicates_from (subset_key c # seen) cs)"

definition drop_duplicates :: "candidate list \<Rightarrow> candidate list" where
  "drop_duplicates pool = drop_duplicates_from [] pool"

definition all_internships :: "env \<Rightarrow> student \<Rightarrow> candidate list" where
  "all_internships e st = drop_duplicates (concat_frames e st)"

subsection \<open>Step 8: similarity\<close>

text \<open>
  \<^verbatim>\<open>TfidfVectorizer(stop_words="english")\<close> lower-cases a document, takes as tokens
  the matches of \<^verbatim>\<open>\b\w\w+\b\<close> (the maximal runs of two or more letters, digits
  and underscores) and drops the stop words. \<open>run\<close> is the run of word characters
  being read.
\<close>

definition is_word_char :: "char \<Rightarrow> bool" where
  "is_word_char c =
     (let n = (of_char c :: nat) in
        (48 \<le> n \<and> n \<le> 57) \<or> (65 \<le> n \<and> n \<le> 90) \<or> n = 95 \<or> (97 \<le> n \<and> n \<le> 122))"

definition close_run :: "string \<Rightarrow> string list" where
  "close_run run = (if 2 \<le> length run then [run] else [])"

fun findall_tokens :: "string \<Rightarrow> string \<Rightarrow> string list" where
  "findall_tokens run [] = close_run run"
| "findall_tokens run (c # cs) =
     (if is_word_char c then findall_tokens (run @ [c]) cs
      else close_run run @ findall_tokens [] cs)"

definition analyze :: "string list \<Rightarrow> string \<Rightarrow> string list" where
  "analyze stop doc = filter (\<lambda>t. t \<notin> set stop) (findall_tokens [] (lower doc))"

definition vocabulary :: "string list \<Rightarrow> string list \<Rightarrow> string list" where
  "vocabulary stop docs = remdups (concat (map (analyze stop) docs))"

datatype py_exception = ValueError string

definition corpus :: "student \<Rightarrow> candidate list \<Rightarrow> string list" where
  "corpus st pool = student_text st # map text_col pool"

text \<open>
  \<^verbatim>\<open>fit_transform\<close> raises when no term is left; otherwise row \<open>i\<close> of the matrix
  is document \<open>i\<close>, and \<^verbatim>\<open>cosine_similarity(m[0:1], m[1:]).flatten()\<close> has one
  number for each of the documents \<open>1, 2, ...\<close>, in their order. The numbers
  themselves are floating-point results of the library: \<open>cosine_tfidf e docs i\<close>
  stands for the similarity of documents \<open>0\<close> and \<open>i\<close> of \<open>docs\<close>.
\<close>

definition similarities :: "env \<Rightarrow> string list \<Rightarrow> py_exception + real list" where
  "similarities e docs =
     (if vocabulary (ENGLISH_STOP_WORDS e) docs = []
      then Inl (ValueError ''empty vocabulary; perhaps the documents only contain stop words'')
      else Inr (map (cosine_tfidf e docs) [1..<length docs]))"

subsection \<open>Step 9: sort and return\<close>

text \<open>
  \<^verbatim>\<open>sort_values("similarity", ascending=False)\<close> on one column: pandas reverses the
  column, sorts the reversed column in ascending order with the library's
  \<open>argsort\<close> of the default kind, maps the positions back and reverses the result
  (\<^verbatim>\<open>nargsort\<close>).
\<close>

definition nargsort_descending :: "env \<Rightarrow> real list \<Rightarrow> nat list" where
  "nargsort_descending e items =
     rev (map (\<lambda>k. rev [0..<length items] ! k) (argsort e (rev items)))"

definition sort_values_descending :: "env \<Rightarrow> (candidate \<times> real) list \<Rightarrow> (candidate \<times> real) list" where
  "sort_values_descending e rows = map (\<lambda>i. rows ! i) (nargsort_descending e (map snd rows))"

definition top_matches :: "env \<Rightarrow> (candidate \<times> real) list \<Rightarrow> (candidate \<times> real) list" where
  "top_matches e rows = take 10 (sort_values_descending e rows)"

definition to_record :: "candidate \<times> real \<Rightarrow> ranked_match" where
  "to_record r =
     \<lparr> m_id = l_id (fst r), m_title = title (fst r), m_description = description (fst r),
       m_similarity = snd r, m_source = source (fst r), m_url = url (fst r) \<rparr>"

subsection \<open>The handler\<close>

datatype response =
  Error string
  | Matches string nat "ranked_match list"

text \<open>Steps 4 to 9, for the student found in step 3.\<close>

definition rank_for :: "env \<Rightarrow> string \<Rightarrow> student \<Rightarrow> (py_exception + response) \<times> call list" where
  "rank_for e student_id st =
     (let calls = [SelectStudent student_id, SelectInternships] @
                  snd (jsearch_step e st) @ snd (adzuna_step e);
          pool = all_internships e st
      in if pool = [] then (Inr (Error ''No internships found (Supabase + APIs)''), calls)
         else
           (case similarities e (corpus st pool) of
              Inl ex \<Rightarrow> (Inl ex, calls)
            | Inr sims \<Rightarrow>
                (let results = map to_record (top_matches e (zip pool sims))
                 in (Inr (Matches student_id (length results) results), calls))))"

definition match_internships :: "env \<Rightarrow> string \<Rightarrow> (py_exception + response) \<times> call list" where
  "match_internships e student_id =
     (case students_table e student_id of
        DbRaised msg \<Rightarrow>
          (Inr (Error (''Database error fetching student: '' @ msg)), [SelectStudent student_id])
      | DbData None \<Rightarrow>
          (Inr (Error (''No student found with id '' @ student_id)), [SelectStudent student_id])
      | DbData (Some []) \<Rightarrow>
          (Inr (Error (''No student found with id '' @ student_id)), [SelectStudent student_id])
      | DbData (Some (st # rest)) \<Rightarrow> rank_for e student_id st)"

subsection \<open>The default sort of the library\<close>

text \<open>
  \<^verbatim>\<open>sort_values\<close> is called without \<^verbatim>\<open>kind\<close>, so pandas passes
  \<^verbatim>\<open>kind="quicksort"\<close> to numpy's \<^verbatim>\<open>argsort\<close>. The handler does not fix what that
  routine does with equal keys; it is the field \<open>argsort\<close> of the environment. What
  follows is numpy's generic implementation of that kind for an array of doubles
  (\<^verbatim>\<open>aquicksort\<close> in \<^verbatim>\<open>npysort/quicksort\<close>, an introsort on the array \<open>ts\<close> of
  positions, comparing the values \<open>v\<close> at them), for the environments of the examples.
  The scans of the partition stop at the pivot, which the C code leaves at \<open>pr - 1\<close>
  for that purpose; the model writes the bound \<open>hi\<close> out.
\<close>

definition intp_swap :: "nat list \<Rightarrow> nat \<Rightarrow> nat \<Rightarrow> nat list" where
  "intp_swap ts i j = ts[i := ts ! j, j := ts ! i]"

function scan_up :: "real list \<Rightarrow> nat list \<Rightarrow> real \<Rightarrow> nat \<Rightarrow> nat \<Rightarrow> nat" where
  "scan_up v ts vp hi i =
     (let i' = i + 1 in
        if i' < hi \<and> v ! (ts ! i') < vp then scan_up v ts vp hi i' else i')"
  by pat_completeness auto
termination
  by (relation "measure (\<lambda>(v, ts, vp, hi, i). hi - i)") auto

function scan_down :: "real list \<Rightarrow> nat list \<Rightarrow> real \<Rightarrow> nat \<Rightarrow> nat" where
  "scan_down v ts vp j =
     (let j' = j - 1 in
        if 0 < j' \<and> vp < v ! (ts ! j') then scan_down v ts vp j' else j')"
  by pat_completeness auto
termination
  by (relation "measure (\<lambda>(v, ts, vp, j). j)") auto

declare scan_up.simps [simp del] scan_down.simps [simp del]

lemma scan_up_gt: "i < scan_up v ts vp hi i"
  by (induction v ts vp hi i rule: scan_up.induct)
     (subst scan_up.simps, auto simp: Let_def dest: Suc_lessD)

lemma scan_up_le: "i < hi \<Longrightarrow> scan_up v ts vp hi i \<le> hi"
  by (induction v ts vp hi i rule: scan_up.induct)
     (subst scan_up.simps, auto simp: Let_def)

lemma scan_down_le: "scan_down v ts vp j \<le> j - 1"
  by (induction v ts vp j rule: scan_down.induct)
     (subst scan_down.simps, auto simp: Let_def)

function part_loop :: "real list \<Rightarrow> nat list \<Rightarrow> real \<Rightarrow> nat \<Rightarrow> nat \<Rightarrow> nat \<Rightarrow> nat list \<times> nat" where
  "part_loop v ts vp hi i j =
     (let i' = scan_up v ts vp hi i; j' = scan_down v ts vp j in
        if i' \<ge> j' then (ts, i') else part_loop v (intp_swap ts i' j') vp hi i' j')"
  by pat_completeness auto
termination
proof (relation "measure (\<lambda>(v, ts, vp, hi, i, j). j - i)", goal_cases)
  case 1
  show ?case by simp
next
  case (2 v ts vp hi i j i' j')
  have "i < i'" using 2 scan_up_gt by simp
  moreover have "j' \<le> j - 1" using 2 scan_down_le by simp
  ultimately show ?case using 2 by simp
qed

declare part_loop.simps [simp del]

lemma part_loop_gt: "i < snd (part_loop v ts vp hi i j)"
proof (induction v ts vp hi i j rule: part_loop.induct)
  case (1 v ts vp hi i j)
  have up: "i < scan_up v ts vp hi i" by (rule scan_up_gt)
  show ?case
  proof (cases "scan_down v ts vp j \<le> scan_up v ts vp hi i")
    case True
    then show ?thesis using up by (subst part_loop.simps) (simp add: Let_def)
  next
    case False
    with 1 [OF refl refl] have "scan_up v ts vp hi i <
        snd (part_loop v (intp_swap ts (scan_up v ts vp hi i) (scan_down v ts vp j)) vp hi
               (scan_up v ts vp hi i) (scan_down v ts vp j))" by simp
    with False up show ?thesis by (subst part_loop.simps) (simp add: Let_def)
  qed
qed

lemma part_loop_le: "i < hi \<Longrightarrow> j \<le> hi \<Longrightarrow> snd (part_loop v ts vp hi i j) \<le> hi"
proof (induction v ts vp hi i j rule: part_loop.induct)
  case (1 v ts vp hi i j)
  have up: "scan_up v ts vp hi i \<le> hi" using 1 by (simp add: scan_up_le)
  have down: "scan_down v ts vp j \<le> j - 1" by (rule scan_down_le)
  show ?case
  proof (cases "scan_down v ts vp j \<le> scan_up v ts vp hi i")
    case True
    then show ?thesis using up by (subst part_loop.simps) (simp add: Let_def)
  next
    case False
    have "snd (part_loop v (intp_swap ts (scan_up v ts vp hi i) (scan_down v ts vp j)) vp hi
               (scan_up v ts vp hi i) (scan_down v ts vp j)) \<le> hi"
      using 1 False down by (intro 1 (1) [OF refl refl]) auto
    with False show ?thesis by (subst part_loop.simps) (simp add: Let_def)
  qed
qed

text \<open>The insertion sort of a short range: the element at \<open>i\<close> moves down past the larger ones.\<close>

function shift_down :: "real list \<Rightarrow> nat list \<Rightarrow> nat \<Rightarrow> nat \<Rightarrow> nat \<Rightarrow> nat list" where
  "shift_down v ts vi pl j =
     (if pl < j \<and> v ! vi < v ! (ts ! (j - 1))
      then shift_down v (ts[j := ts ! (j - 1)]) vi pl (j - 1)
      else ts[j := vi])"
  by pat_completeness auto
termination
  by (relation "measure (\<lambda>(v, ts, vi, pl, j). j)") auto

function insertion_sort :: "real list \<Rightarrow> nat list \<Rightarrow> nat \<Rightarrow> nat \<Rightarrow> nat \<Rightarrow> nat list" where
  "insertion_sort v ts pl pr i =
     (if i \<le> pr then insertion_sort v (shift_down v ts (ts ! i) pl i) pl pr (i + 1) else ts)"
  by pat_completeness auto
termination
  by (relation "measure (\<lambda>(v, ts, pl, pr, i). pr + 1 - i)") auto

declare shift_down.simps [simp del] insertion_sort.simps [simp del]

text \<open>
  The heap sort of \<open>n\<close> positions from \<open>off\<close>, taken when the depth limit is used up. The C
  code indexes from one: its \<open>a[k]\<close> is \<open>ts ! (off + k - 1)\<close>.
\<close>

function sift :: "real list \<Rightarrow> nat list \<Rightarrow> nat \<Rightarrow> nat \<Rightarrow> nat \<Rightarrow> nat \<Rightarrow> nat \<Rightarrow> nat list" where
  "sift v ts off tmp n i j =
     (if 0 < j \<and> j \<le> n then
        (let j' = (if j < n \<and> v ! (ts ! (off + j - 1)) < v ! (ts ! (off + j)) then j + 1 else j) in
           if v ! tmp < v ! (ts ! (off + j' - 1))
           then sift v (ts[off + i - 1 := ts ! (off + j' - 1)]) off tmp n j' (j' + j')
           else ts[off + i - 1 := tmp])
      else ts[off + i - 1 := tmp])"
  by pat_completeness auto
termination
  by (relation "measure (\<lambda>(v, ts, off, tmp, n, i, j). n + 1 - j)") auto

fun heapify :: "real list \<Rightarrow> nat list \<Rightarrow> nat \<Rightarrow> nat \<Rightarrow> nat \<Rightarrow> nat list" where
  "heapify v ts off n 0 = ts"
| "heapify v ts off n (Suc l) =
     heapify v (sift v ts off (ts ! (off + Suc l - 1)) n (Suc l) (2 * Suc l)) off n l"

fun extract_all :: "real list \<Rightarrow> nat list \<Rightarrow> nat \<Rightarrow> nat \<Rightarrow> nat list" where
  "extract_all v ts off 0 = ts"
| "extract_all v ts off (Suc m) =
     (if m = 0 then ts
      else extract_all v
             (sift v (ts[off + Suc m - 1 := ts ! off]) off (ts ! (off + Suc m - 1)) m 1 2)
             off m)"

definition aheapsort :: "real list \<Rightarrow> nat list \<Rightarrow> nat \<Rightarrow> nat \<Rightarrow> nat list" where
  "aheapsort v ts off n = extract_all v (heapify v ts off n (n div 2)) off n"

declare sift.simps [simp del]

text \<open>
  The main loop on the range \<open>pl..pr\<close>: median of three, partition, the smaller part
  first, the other part when it is popped from the stack (heap sort if the depth limit is
  negative by then), insertion sort for ranges of at most 17 positions.
\<close>

function quicksort_range :: "real list \<Rightarrow> nat list \<Rightarrow> nat \<Rightarrow> nat \<Rightarrow> int \<Rightarrow> nat list" where
  "quicksort_range v ts pl pr cdepth =
     (if 16 < pr - pl then
        (let pm = pl + (pr - pl) div 2;
             ts1 = (if v ! (ts ! pm) < v ! (ts ! pl) then intp_swap ts pm pl else ts);
             ts2 = (if v ! (ts1 ! pr) < v ! (ts1 ! pm) then intp_swap ts1 pr pm else ts1);
             ts3 = (if v ! (ts2 ! pm) < v ! (ts2 ! pl) then intp_swap ts2 pm pl else ts2);
             vp = v ! (ts3 ! pm);
             ts4 = intp_swap ts3 pm (pr - 1);
             part = part_loop v ts4 vp (pr - 1) pl (pr - 1);
             i = snd part;
             ts5 = intp_swap (fst part) i (pr - 1);
             d = cdepth - 1
         in if i - pl < pr - i then
              (let ts6 = quicksort_range v ts5 pl (i - 1) d in
                 if d < 0 then aheapsort v ts6 (i + 1) (pr - (i + 1) + 1)
                 else quicksort_range v ts6 (i + 1) pr d)
            else
              (let ts6 = quicksort_range v ts5 (i + 1) pr d in
                 if d < 0 then aheapsort v ts6 pl ((i - 1) - pl + 1)
                 else quicksort_range v ts6 pl (i - 1) d))
      else insertion_sort v ts pl pr (pl + 1))"
  by pat_completeness auto
termination
proof (relation "measure (\<lambda>(v, ts, pl, pr, cdepth). pr - pl)", goal_cases)
  case 1
  show ?case by simp
next
  case (2 v ts pl pr cdepth pm ts1 ts2 ts3 vp ts4 part i ts5 d)
  from 2(1,12) show ?case by simp
next
  case (3 v ts pl pr cdepth pm ts1 ts2 ts3 vp ts4 part i ts5 d ts6)
  have "pl < i" unfolding 3(9) 3(8) by (rule part_loop_gt)
  with 3(1) show ?case by simp
next
  case (4 v ts pl pr cdepth pm ts1 ts2 ts3 vp ts4 part i ts5 d)
  have "pl < i" unfolding 4(9) 4(8) by (rule part_loop_gt)
  with 4(1) show ?case by simp
next
  case (5 v ts pl pr cdepth pm ts1 ts2 ts3 vp ts4 part i ts5 d ts6)
  have "i \<le> pr - 1" unfolding 5(9) 5(8) using 5(1) by (intro part_loop_le) simp_all
  with 5(1) show ?case by simp
qed

declare quicksort_range.simps [simp del]

fun npy_get_msb :: "nat \<Rightarrow> nat" where
  "npy_get_msb n = (if n < 2 then 0 else 1 + npy_get_msb (n div 2))"

declare npy_get_msb.simps [simp del]

definition aquicksort :: "real list \<Rightarrow> nat list" where
  "aquicksort v =
     (let num = length v in quicksort_range v [0..<num] 0 (num - 1) (2 * int (npy_get_msb num)))"

subsection \<open>Example requests\<close>

text \<open>An excerpt of scikit-learn's English stop-word list.\<close>

definition stop_words_excerpt :: "string list" where
  "stop_words_excerpt =
     [''a'', ''an'', ''and'', ''are'', ''for'', ''in'', ''is'', ''of'', ''the'', ''to'']"

definition ada :: student where
  "ada = \<lparr> skills = [''python'', ''react''], bio = Some ''frontend developer'' \<rparr>"

definition python_intern :: internship where
  "python_intern =
     \<lparr> i_id = ''1'', i_title = Some ''Python Intern'', i_description = Some ''Build APIs'',
       i_required_skills = [''python''] \<rparr>"

text \<open>One student, one internship in the datastore, no provider credentials.\<close>

definition offline_env :: env where
  "offline_env =
     \<lparr> students_table = (\<lambda>i. if i = ''s1'' then DbData (Some [ada]) else DbData (Some [])),
       internships_table = DbData (Some [python_intern]),
       RAPIDAPI_KEY = None, ADZUNA_APP_ID = None, ADZUNA_APP_KEY = None,
       jsearch_get = (\<lambda>u. RequestRaised), adzuna_get = (\<lambda>p. RequestRaised),
       ENGLISH_STOP_WORDS = stop_words_excerpt,
       cosine_tfidf = (\<lambda>docs i. 1 / 2),
       argsort = aquicksort \<rparr>"

text \<open>The datastore cannot be reached when the student is read.\<close>

definition db_down_env :: env where
  "db_down_env = offline_env \<lparr> students_table := (\<lambda>i. DbRaised ''connection refused'') \<rparr>"

text \<open>
  Every source fails: the listing query raises, the JSearch request times out, Adzuna
  answers 503.
\<close>

definition outage_env :: env where
  "outage_env =
     offline_env \<lparr> internships_table := DbRaised ''timeout'',
       RAPIDAPI_KEY := Some ''key'', ADZUNA_APP_ID := Some ''id'', ADZUNA_APP_KEY := Some ''key'',
       jsearch_get := (\<lambda>u. RequestRaised), adzuna_get := (\<lambda>p. Response 503 None) \<rparr>"

text \<open>JSearch answers 404.\<close>

definition jsearch_404_env :: env where
  "jsearch_404_env =
     offline_env \<lparr> RAPIDAPI_KEY := Some ''key'', jsearch_get := (\<lambda>u. Response 404 None) \<rparr>"

text \<open>Adzuna cannot be reached.\<close>

definition adzuna_down_env :: env where
  "adzuna_down_env =
     offline_env \<lparr> ADZUNA_APP_ID := Some ''id'', ADZUNA_APP_KEY := Some ''key'',
       adzuna_get := (\<lambda>p. RequestRaised) \<rparr>"

text \<open>
  The same listing from the datastore and from JSearch, and another one from JSearch and
  from Adzuna.
\<close>

definition jsearch_jobs :: "jsearch_job list" where
  "jsearch_jobs =
     [\<lparr> job_id = Str ''j-77'', job_title = Str ''Python Intern'',
         job_description = Str ''Build APIs'', job_apply_link = Str ''https://jobs.example/77'' \<rparr>,
      \<lparr> job_id = Absent, job_title = Str ''React Intern'',
         job_description = Str ''Build pages'', job_apply_link = Null \<rparr>]"

definition adzuna_jobs :: "adzuna_job list" where
  "adzuna_jobs =
     [\<lparr> adz_id = Str ''501'', adz_title = Str ''React Intern'',
         adz_description = Str ''Build pages'', adz_redirect_url = Str ''https://adzuna.example/501'' \<rparr>,
      \<lparr> adz_id = Absent, adz_title = Absent,
         adz_description = Str ''Data entry'', adz_redirect_url = Absent \<rparr>]"

definition overlap_env :: env where
  "overlap_env =
     offline_env \<lparr> RAPIDAPI_KEY := Some ''key'', ADZUNA_APP_ID := Some ''id'',
       ADZUNA_APP_KEY := Some ''key'',
       jsearch_get := (\<lambda>u. Response 200 (Some jsearch_jobs)),
       adzuna_get := (\<lambda>p. Response 200 (Some adzuna_jobs)),
       cosine_tfidf := (\<lambda>docs i. if i = 2 then 3 / 4 else 1 / 4) \<rparr>"

text \<open>Adzuna answers with eleven results to a request for ten per page.\<close>

definition numbered_job :: "nat \<Rightarrow> adzuna_job" where
  "numbered_job n =
     \<lparr> adz_id = Str (str_nat n), adz_title = Str (''Intern '' @ str_nat n),
       adz_description = Absent, adz_redirect_url = Absent \<rparr>"

definition eleven_env :: env where
  "eleven_env =
     offline_env \<lparr> ADZUNA_APP_ID := Some ''id'', ADZUNA_APP_KEY := Some ''key'',
       adzuna_get := (\<lambda>p. Response 200 (Some (map numbered_job [0..<11]))) \<rparr>"

text \<open>A student and a listing with no text at all, and with stop words only.\<close>

definition blank_student :: student where
  "blank_student = \<lparr> skills = [], bio = None \<rparr>"

definition blank_env :: env where
  "blank_env =
     offline_env \<lparr> students_table := (\<lambda>i. DbData (Some [blank_student])),
       internships_table := DbData (Some
         [\<lparr> i_id = ''9'', i_title = None, i_description = None, i_required_skills = [] \<rparr>]) \<rparr>"

definition stop_words_env :: env where
  "stop_words_env =
     offline_env \<lparr> students_table := (\<lambda>i. DbData (Some [\<lparr> skills = [], bio = Some ''The'' \<rparr>])),
       internships_table := DbData (Some
         [\<lparr> i_id = ''9'', i_title = Some ''And the'', i_description = Some ''of a'',
            i_required_skills = [''in''] \<rparr>]) \<rparr>"

text \<open>
  Eighteen internships in the datastore, none of which shares a term with the student:
  every similarity is 0.
\<close>

definition cobol_student :: student where
  "cobol_student = \<lparr> skills = [''cobol''], bio = None \<rparr>"

definition numbered_internship :: "nat \<Rightarrow> internship" where
  "numbered_internship n =
     \<lparr> i_id = str_nat n, i_title = Some (''Intern '' @ str_nat n), i_description = None,
       i_required_skills = [] \<rparr>"

definition ties_env :: env where
  "ties_env =
     offline_env \<lparr> students_table := (\<lambda>i. DbData (Some [cobol_student])),
       internships_table := DbData (Some (map numbered_internship [0..<18])),
       cosine_tfidf := (\<lambda>docs i. 0) \<rparr>"

text \<open>The list of matches of a response (none for an error).\<close>

fun matches_of :: "py_exception + response \<Rightarrow> ranked_match list" where
  "matches_of (Inr (Matches student_id n ms)) = ms"
| "matches_of other = []"

section \<open>Deduplication\<close>

lemma drop_duplicates_from_length: "length (drop_duplicates_from seen pool) \<le> length pool"
  by (induction pool arbitrary: seen) (auto simp: le_SucI)

lemma drop_duplicates_from_keys:
  "set (map subset_key (drop_duplicates_from seen pool)) = set (map subset_key pool) - set seen"
  by (induction pool arbitrary: seen) auto

lemma drop_duplicates_from_distinct: "distinct (map subset_key (drop_duplicates_from seen pool))"
proof (induction pool arbitrary: seen)
  case Nil
  show ?case by simp
next
  case (Cons c cs)
  have "subset_key c \<notin> set (map subset_key (drop_duplicates_from (subset_key c # seen) cs))"
    unfolding drop_duplicates_from_keys by simp
  with Cons show ?case by simp
qed

text \<open>
  C3. For every aggregated pool, the pool after deduplication is no longer than the
  aggregated pool, and no two of its entries have the same raw title and the same raw
  description.
\<close>

theorem dedup_smaller_and_distinct:
  "length (drop_duplicates pool) \<le> length pool \<and>
   distinct (map subset_key (drop_duplicates pool))"
  unfolding drop_duplicates_def
  using drop_duplicates_from_length drop_duplicates_from_distinct by blast

lemmas handler_defs = match_internships_def rank_for_def all_internships_def concat_frames_def
  internal_df_def external_df_def external_list_def jsearch_list_def jsearch_step_def
  adzuna_list_def adzuna_step_def drop_duplicates_def internal_row_def external_row_def
  subset_key_def similarities_def corpus_def vocabulary_def analyze_def lower_def
  lower_char_def is_word_char_def close_run_def student_text_def top_matches_def
  sort_values_descending_def nargsort_descending_def to_record_def jsearch_url_def
  skills_query_def adzuna_request_def Let_def

lemmas example_defs = stop_words_excerpt_def ada_def python_intern_def offline_env_def
  db_down_env_def outage_env_def jsearch_404_env_def adzuna_down_env_def jsearch_jobs_def
  adzuna_jobs_def overlap_env_def numbered_job_def eleven_env_def blank_student_def
  blank_env_def stop_words_env_def cobol_student_def numbered_internship_def ties_env_def

section \<open>Failures of the request\<close>

text \<open>
  C5. For every student id that resolves to no record (the query returns no data or an
  empty list), the handler returns the error ``No student found'' and the only call it
  has made is the student query: no listing is read and no provider is called.
\<close>

theorem profile_not_found_no_fetch:
  assumes "students_table e sid = DbData None \<or> students_table e sid = DbData (Some [])"
  shows "match_internships e sid =
           (Inr (Error (''No student found with id '' @ sid)), [SelectStudent sid])"
  using assms by (auto simp: match_internships_def)

theorem profile_not_found_no_fetch_witness:
  "students_table offline_env ''nobody'' = DbData (Some []) \<and>
   match_internships offline_env ''nobody'' =
     (Inr (Error ''No student found with id nobody''), [SelectStudent ''nobody''])"
proof -
  have h: "students_table offline_env ''nobody'' = DbData (Some [])"
    by (simp add: offline_env_def)
  show ?thesis using h profile_not_found_no_fetch [OF disjI2, OF h] by simp
qed

lemma drop_duplicates_Nil: "drop_duplicates [] = []"
  by (simp add: drop_duplicates_def)

text \<open>
  C6. If the student is found and each of the three sources contributes no candidate,
  the pool after deduplication is empty and the handler returns the error
  ``No internships found'', not a response with an empty list of matches.
\<close>

theorem no_candidates:
  assumes "students_table e sid = DbData (Some (st # rest))"
    and "internal_df e = []" and "jsearch_list e st = []" and "adzuna_list e = []"
  shows "all_internships e st = [] \<and>
         fst (match_internships e sid) = Inr (Error ''No internships found (Supabase + APIs)'')"
  using assms
  by (simp add: match_internships_def rank_for_def all_internships_def concat_frames_def
      external_df_def external_list_def drop_duplicates_Nil Let_def)

theorem no_candidates_witness:
  "all_internships outage_env ada = [] \<and>
   fst (match_internships outage_env ''s1'') =
     Inr (Error ''No internships found (Supabase + APIs)'')"
proof -
  have h1: "students_table outage_env ''s1'' = DbData (Some (ada # []))"
    by (simp add: outage_env_def offline_env_def)
  have h2: "internal_df outage_env = []"
    by (simp add: outage_env_def offline_env_def internal_df_def)
  have h3: "jsearch_list outage_env ada = []"
    by (simp add: outage_env_def offline_env_def jsearch_list_def jsearch_step_def)
  have h4: "adzuna_list outage_env = []"
    by (simp add: outage_env_def offline_env_def adzuna_list_def adzuna_step_def)
  show ?thesis using no_candidates [OF h1 h2 h3 h4] by simp
qed

text \<open>
  C1. The claim is that an empty vocabulary gives every candidate the score 0.0 and the
  request completes. The handler calls \<^verbatim>\<open>fit_transform\<close> outside any \<^verbatim>\<open>try\<close>: when the
  student is found, the pool is not empty and no term is left after the stop words are
  removed, the vectorizer's \<^verbatim>\<open>ValueError\<close> leaves the handler and no response is
  returned.
\<close>

theorem empty_vocabulary_raises:
  assumes "students_table e sid = DbData (Some (st # rest))"
    and "all_internships e st \<noteq> []"
    and "vocabulary (ENGLISH_STOP_WORDS e) (corpus st (all_internships e st)) = []"
  shows "fst (match_internships e sid) =
           Inl (ValueError ''empty vocabulary; perhaps the documents only contain stop words'')"
  using assms by (simp add: match_internships_def rank_for_def similarities_def Let_def)

text \<open>
  A student without skills and biography and one listing without title, description and
  skills: the two documents hold blanks only, and the request ends with the exception.
\<close>

theorem empty_vocabulary_counterexample:
  "corpus blank_student (all_internships blank_env blank_student) = ['' '', ''  ''] \<and>
   vocabulary (ENGLISH_STOP_WORDS blank_env)
     (corpus blank_student (all_internships blank_env blank_student)) = [] \<and>
   match_internships blank_env ''s1'' =
     (Inl (ValueError ''empty vocabulary; perhaps the documents only contain stop words''),
      [SelectStudent ''s1'', SelectInternships])"
  by (simp add: handler_defs example_defs)

theorem empty_vocabulary_raises_witness:
  "corpus \<lparr> skills = [], bio = Some ''The'' \<rparr>
     (all_internships stop_words_env \<lparr> skills = [], bio = Some ''The'' \<rparr>) =
     ['' the'', ''and the of a in''] \<and>
   fst (match_internships stop_words_env ''s1'') =
     Inl (ValueError ''empty vocabulary; perhaps the documents only contain stop words'')"
proof -
  let ?st = "\<lparr> skills = [], bio = Some ''The'' \<rparr>"
  have h1: "students_table stop_words_env ''s1'' = DbData (Some (?st # []))"
    by (simp add: stop_words_env_def offline_env_def)
  have h2: "all_internships stop_words_env ?st \<noteq> []"
    by code_simp
  have h3: "vocabulary (ENGLISH_STOP_WORDS stop_words_env)
              (corpus ?st (all_internships stop_words_env ?st)) = []"
    by code_simp
  have h4: "corpus ?st (all_internships stop_words_env ?st) = ['' the'', ''and the of a in'']"
    by code_simp
  show ?thesis using h4 empty_vocabulary_raises [OF h1 h2 h3] by simp
qed

section \<open>The source adapters\<close>

lemma jsearch_loop_length: "length (jsearch_loop jobs acc) = length acc + length jobs"
  by (induction jobs arbitrary: acc) auto

lemma adzuna_loop_length: "length (adzuna_loop jobs acc) = length acc + length jobs"
  by (induction jobs arbitrary: acc) auto

lemma jsearch_loop_titles:
  "map title (jsearch_loop jobs acc) =
     map title acc @ map (\<lambda>job. dict_get (job_title job) ''Untitled'') jobs"
  by (induction jobs arbitrary: acc) auto

lemma adzuna_loop_titles:
  "map title (adzuna_loop jobs acc) =
     map title acc @ map (\<lambda>job. dict_get (adz_title job) ''Untitled'') jobs"
  by (induction jobs arbitrary: acc) auto

text \<open>
  C8. The claim is that each provider's adapter cuts the raw results to ten before it
  normalizes them, whatever the provider returns. The JSearch adapter does
  (\<^verbatim>\<open>[:10]\<close>): its listings are those of the first ten raw results. The Adzuna adapter
  asks the provider for ten results per page and normalizes every result of the answer.
\<close>

theorem provider_caps:
  "length (jsearch_list e st) \<le> 10 \<and>
   (truthy (RAPIDAPI_KEY e) \<and> jsearch_get e (jsearch_url st) = Response 200 body \<longrightarrow>
      map title (jsearch_list e st) =
        map (\<lambda>job. dict_get (job_title job) ''Untitled'') (take 10 (body_list body))) \<and>
   results_per_page (adzuna_request e) = 10 \<and>
   (truthy (ADZUNA_APP_ID e) \<and> truthy (ADZUNA_APP_KEY e) \<and>
    adzuna_get e (adzuna_request e) = Response 200 body' \<longrightarrow>
      map title (adzuna_list e) =
        map (\<lambda>job. dict_get (adz_title job) ''Untitled'') (body_list body'))"
  by (auto simp: jsearch_list_def jsearch_step_def adzuna_list_def adzuna_step_def
      jsearch_loop_length jsearch_loop_titles adzuna_loop_titles adzuna_request_def
      split: http_result.splits)

text \<open>Eleven results from Adzuna give eleven listings.\<close>

theorem adzuna_cap_counterexample:
  "results_per_page (adzuna_request eleven_env) = 10 \<and> length (adzuna_list eleven_env) = 11"
  by (simp add: eleven_env_def offline_env_def adzuna_list_def adzuna_step_def
      adzuna_request_def adzuna_loop_length)

theorem provider_caps_witness:
  "map title (jsearch_list overlap_env ada) = [Some ''Python Intern'', Some ''React Intern''] \<and>
   map title (adzuna_list overlap_env) = [Some ''React Intern'', Some ''Untitled''] \<and>
   length (adzuna_list eleven_env) = 11"
  using provider_caps [of overlap_env ada "Some jsearch_jobs" "Some adzuna_jobs"]
    provider_caps [of eleven_env ada None "Some (map numbered_job [0..<11])"]
  by (simp add: overlap_env_def eleven_env_def offline_env_def adzuna_request_def
      jsearch_jobs_def adzuna_jobs_def adzuna_list_def adzuna_step_def adzuna_loop_length)

lemma join_empty_iff: "sep \<noteq> [] \<Longrightarrow> join sep xs = [] \<longleftrightarrow> xs = [] \<or> xs = [[]]"
  by (induction sep xs rule: join.induct) auto

text \<open>
  C9. The claim is that both providers are queried with the student's skills, and with
  ``internship'' exactly when there are none. The JSearch query is the skills joined by
  \<open>+\<close>, replaced by ``internship'' exactly when that string is empty (no skills, or one
  empty skill), and followed by \<open>+internship\<close>. The Adzuna query is always
  ``internship'': the request does not depend on the student.
\<close>

theorem provider_queries:
  "skills_query st =
     (if skills st = [] \<or> skills st = [[]] then ''internship'' else join ''+'' (skills st)) \<and>
   (truthy (RAPIDAPI_KEY e) \<longrightarrow>
      snd (jsearch_step e st) =
        [GetJSearch (''https://jsearch.p.rapidapi.com/search?query='' @ skills_query st @
                     ''+internship&page=1&num_pages=1'')]) \<and>
   (truthy (ADZUNA_APP_ID e) \<and> truthy (ADZUNA_APP_KEY e) \<longrightarrow>
      snd (adzuna_step e) = [GetAdzuna (adzuna_request e)]) \<and>
   what (adzuna_request e) = ''internship''"
  by (simp add: skills_query_def join_empty_iff jsearch_step_def jsearch_url_def
      adzuna_step_def adzuna_request_def Let_def)

text \<open>
  Adzuna is asked for ``internship'' for a student with two skills, and JSearch is asked
  for the default for a student whose skill list is not empty.
\<close>

theorem provider_queries_counterexample:
  "skills ada = [''python'', ''react''] \<and>
   snd (adzuna_step overlap_env) =
     [GetAdzuna \<lparr> app_id = Some ''id'', app_key = Some ''key'', results_per_page = 10,
                  what = ''internship'', where_ = ''India'' \<rparr>] \<and>
   skills_query \<lparr> skills = [''''], bio = None \<rparr> = ''internship''"
  by (simp add: ada_def overlap_env_def offline_env_def adzuna_step_def adzuna_request_def
      skills_query_def)

theorem provider_queries_witness:
  "skills_query ada = ''python+react'' \<and>
   skills_query blank_student = ''internship'' \<and>
   snd (jsearch_step overlap_env ada) =
     [GetJSearch ''https://jsearch.p.rapidapi.com/search?query=python+react+internship&page=1&num_pages=1''] \<and>
   snd (adzuna_step overlap_env) = [GetAdzuna (adzuna_request overlap_env)]"
  using provider_queries [of ada overlap_env] provider_queries [of blank_student overlap_env]
  by (simp add: ada_def blank_student_def overlap_env_def offline_env_def)

section \<open>What reaches the caller\<close>

text \<open>
  C7. A failed fetch of a source (no credentials, an exception of the request, a status
  other than 200, an exception of the listing query) leaves that source's list empty.
  The claim adds that only the conditions ``student not found'' and ``no candidates''
  are returned as failures; the handler also returns ``Database error fetching
  student'' when the student query raises. These three are the only error responses,
  and none is returned when the student is found and the pool is not empty.
\<close>

theorem source_failures_absorbed:
  "(internships_table e = DbRaised msg \<longrightarrow> internal_df e = []) \<and>
   (\<not> truthy (RAPIDAPI_KEY e) \<longrightarrow> jsearch_step e st = ([], [])) \<and>
   (jsearch_get e (jsearch_url st) = RequestRaised \<longrightarrow> jsearch_list e st = []) \<and>
   (jsearch_get e (jsearch_url st) = Response status body \<and> status \<noteq> 200 \<longrightarrow>
      jsearch_list e st = []) \<and>
   (\<not> (truthy (ADZUNA_APP_ID e) \<and> truthy (ADZUNA_APP_KEY e)) \<longrightarrow> adzuna_step e = ([], [])) \<and>
   (adzuna_get e (adzuna_request e) = RequestRaised \<longrightarrow> adzuna_list e = []) \<and>
   (adzuna_get e (adzuna_request e) = Response status' body' \<and> status' \<noteq> 200 \<longrightarrow>
      adzuna_list e = []) \<and>
   (fst (match_internships e sid) = Inr (Error m) \<longrightarrow>
      m = ''No student found with id '' @ sid \<or>
      m = ''No internships found (Supabase + APIs)'' \<or>
      (\<exists>x. students_table e sid = DbRaised x \<and> m = ''Database error fetching student: '' @ x)) \<and>
   (students_table e sid = DbData (Some (st # rest)) \<and> all_internships e st \<noteq> [] \<longrightarrow>
      fst (match_internships e sid) \<noteq> Inr (Error m))"
proof -
  have errors: "fst (match_internships e sid) = Inr (Error m) \<Longrightarrow>
      m = ''No student found with id '' @ sid \<or>
      m = ''No internships found (Supabase + APIs)'' \<or>
      (\<exists>x. students_table e sid = DbRaised x \<and> m = ''Database error fetching student: '' @ x)"
    by (auto simp: match_internships_def rank_for_def Let_def
        split: db_result.splits option.splits list.splits if_splits sum.splits)
  have ranked: "students_table e sid = DbData (Some (st # rest)) \<Longrightarrow>
      all_internships e st \<noteq> [] \<Longrightarrow> fst (match_internships e sid) \<noteq> Inr (Error m)"
    by (auto simp: match_internships_def rank_for_def Let_def split: sum.splits)
  show ?thesis
    using errors ranked
    by (auto simp: internal_df_def jsearch_list_def jsearch_step_def adzuna_list_def
        adzuna_step_def)
qed

text \<open>The student query raises: the caller receives a third kind of failure.\<close>

theorem database_error_counterexample:
  "match_internships db_down_env ''s1'' =
     (Inr (Error ''Database error fetching student: connection refused''),
      [SelectStudent ''s1''])"
  by (simp add: match_internships_def db_down_env_def offline_env_def)

theorem source_failures_absorbed_witness:
  "internal_df outage_env = [] \<and>
   jsearch_list outage_env ada = [] \<and>
   adzuna_list outage_env = [] \<and>
   jsearch_list jsearch_404_env ada = [] \<and>
   adzuna_list adzuna_down_env = [] \<and>
   jsearch_step offline_env ada = ([], []) \<and>
   adzuna_step offline_env = ([], []) \<and>
   fst (match_internships outage_env ''s1'') = Inr (Error ''No internships found (Supabase + APIs)'') \<and>
   fst (match_internships jsearch_404_env ''s1'') \<noteq> Inr (Error ''No internships found (Supabase + APIs)'')"
proof -
  have pool: "all_internships jsearch_404_env ada \<noteq> []"
    by (simp add: handler_defs example_defs)
  have out: "fst (match_internships outage_env ''s1'') =
      Inr (Error ''No internships found (Supabase + APIs)'')"
    by (simp add: handler_defs example_defs)
  show ?thesis
    using pool out
      source_failures_absorbed [of outage_env "''timeout''" ada 503 None 503 None "''s1''"
        "''No internships found (Supabase + APIs)''" "[]"]
      source_failures_absorbed [of jsearch_404_env "''timeout''" ada 404 None 503 None "''s1''"
        "''No internships found (Supabase + APIs)''" "[]"]
      source_failures_absorbed [of adzuna_down_env "''timeout''" ada 404 None 503 None "''s1''"
        "''No internships found (Supabase + APIs)''" "[]"]
      source_failures_absorbed [of offline_env "''timeout''" ada 404 None 503 None "''s1''"
        "''No internships found (Supabase + APIs)''" "[]"]
    by (simp add: outage_env_def jsearch_404_env_def adzuna_down_env_def offline_env_def
        adzuna_request_def)
qed

end
